theory Spec2Isabelle
  imports Main "HOL-Library.AList"
begin

section \<open>Python values, exceptions and the environment\<close>

text \<open>
  The command-line front end \<^verbatim>\<open>sisepuede_cl.py\<close> works on dynamically typed
  values: the entries of the argument dictionary, the cells of a data frame read by
  pandas. The values of the model are \<^verbatim>\<open>None\<close>, booleans, integers, strings and
  the missing-value float \<^verbatim>\<open>nan\<close>; other floats are left out. Strings are lists
  of code points below 256, one \<^typ>\<open>char\<close> each.
\<close>

datatype pyval = PNone | PBool bool | PInt int | PStr string | PNaN

text \<open>
  Built-in exceptions that the modelled code can meet: \<^verbatim>\<open>int(x)\<close> on text that is
  no integer literal (the message quotes the text), on text with too many digits (the
  message gives their number), on \<^verbatim>\<open>nan\<close> and on
  \<^verbatim>\<open>None\<close>; \<^verbatim>\<open>str.split\<close> with an empty separator; a loop over
  \<^verbatim>\<open>None\<close>.
\<close>

datatype exc =
    ValueErrorLiteral string
  | ValueErrorDigits nat
  | ValueErrorNaN
  | ValueErrorSeparator
  | TypeErrorInt
  | TypeErrorNotIterable

text \<open>
  What leaves a function of the front end as a raised exception. A
  \<^verbatim>\<open>RuntimeError\<close> is represented by the data its message is formatted from.
\<close>

datatype error =
    RuntimeErrorReadFile string
      \<comment> \<open>\<^verbatim>\<open>Error trying to read keys from file {keys_in}: {e}\<close>\<close>
  | RuntimeErrorKeyNotFound string string
      \<comment> \<open>\<^verbatim>\<open>Error reading keys from file {keys_in}: key '{key}' not found in the file.\<close>\<close>
  | RuntimeErrorInputString exc
      \<comment> \<open>\<^verbatim>\<open>Error trying to read keys in input string: {e}\<close>\<close>
  | Raised exc
      \<comment> \<open>a built-in exception that no handler wraps\<close>
  | RuntimeErrorNoDimensions
      \<comment> \<open>\<^verbatim>\<open>No valid dimensional subsets or scenarios were specified. ...\<close>\<close>
  | RuntimeErrorInvalidSpecification
      \<comment> \<open>\<^verbatim>\<open>Invalid specification of regions, input dimensions. ...\<close>\<close>
  | EngineError string
      \<comment> \<open>whatever the SISEPUEDE object raises\<close>

text \<open>
  The file system as \<^verbatim>\<open>os.path.exists\<close> and \<^verbatim>\<open>pandas.read_csv\<close> see it: a
  path names nothing, or something \<^verbatim>\<open>read_csv\<close> raises on, or a table whose
  columns are listed with their header and their cells.
\<close>

datatype fs_entry = Unreadable | Frame "(string \<times> pyval list) list"

type_synonym filesystem = "string \<rightharpoonup> fs_entry"

definition path_exists :: "filesystem \<Rightarrow> string \<Rightarrow> bool" where
  \<comment> \<open>\<^verbatim>\<open>os.path.exists("")\<close> is \<^verbatim>\<open>False\<close> whatever the file system holds.\<close>
  "path_exists fs p = (p \<noteq> [] \<and> fs p \<noteq> None)"

section \<open>Built-ins: \<^verbatim>\<open>int\<close>, \<^verbatim>\<open>str\<close>, \<^verbatim>\<open>str.split\<close>, \<^verbatim>\<open>str.upper\<close>\<close>

text \<open>
  The characters \<^verbatim>\<open>int\<close> skips around a literal: the ASCII white space, and the
  two code points above 127 that count as spaces (next line, no-break space), which
  the conversion turns into blanks first. The separators \<^verbatim>\<open>0x1C\<close> to
  \<^verbatim>\<open>0x1F\<close> are not skipped.
\<close>

definition whitespace :: "char list" where
  "whitespace =
     [CHR 0x09, CHR 0x0A, CHR 0x0B, CHR 0x0C, CHR 0x0D, CHR 0x20, CHR 0x85, CHR 0xA0]"

definition is_space :: "char \<Rightarrow> bool" where
  "is_space c = (c \<in> set whitespace)"

definition digit_value :: "char \<Rightarrow> nat option" where
  "digit_value = map_of (zip ''0123456789'' [0, 1, 2, 3, 4, 5, 6, 7, 8, 9])"

text \<open>
  The run of digits and underscores at the head of a text. The arguments are the value
  and the number of the digits read so far and whether the previous character was an
  underscore; the result adds the text after the run. A doubled underscore and an
  underscore at the end of the run are errors.
\<close>

fun scan_digits :: "int \<Rightarrow> nat \<Rightarrow> bool \<Rightarrow> string \<Rightarrow> (int \<times> nat \<times> string) option" where
  "scan_digits acc n prev [] = (if prev then None else Some (acc, n, []))"
| "scan_digits acc n prev (c # cs) =
     (if c = CHR ''_'' then (if prev then None else scan_digits acc n True cs)
      else case digit_value c of
             None \<Rightarrow> (if prev then None else Some (acc, n, c # cs))
           | Some d \<Rightarrow> scan_digits (10 * acc + int d) (Suc n) False cs)"

text \<open>
  The interpreter refuses a literal of more digits than this (the default of
  \<^verbatim>\<open>sys.get_int_max_str_digits()\<close>), with an error that gives the number of
  digits and not the text.
\<close>

definition int_max_str_digits :: nat where
  "int_max_str_digits = 4300"

text \<open>
  \<^verbatim>\<open>int(s)\<close> in base 10, in the order of the interpreter: white space, an optional
  sign, no underscore first, the run of digits, the limit on the digits, at least one
  digit, then white space only.
\<close>

definition int_of_digits :: "string \<Rightarrow> int \<Rightarrow> string \<Rightarrow> exc + int" where
  "int_of_digits s sign u =
     (case u of
        [] \<Rightarrow> Inl (ValueErrorLiteral s)
      | c # cs \<Rightarrow>
          if c = CHR ''_'' then Inl (ValueErrorLiteral s)
          else
            (case scan_digits 0 0 False u of
               None \<Rightarrow> Inl (ValueErrorLiteral s)
             | Some (v, n, rest) \<Rightarrow>
                 if int_max_str_digits < n then Inl (ValueErrorDigits n)
                 else if n = 0 then Inl (ValueErrorLiteral s)
                 else if dropWhile is_space rest = [] then Inr (sign * v)
                 else Inl (ValueErrorLiteral s)))"

definition int_of_string :: "string \<Rightarrow> exc + int" where
  "int_of_string s =
     (case dropWhile is_space s of
        [] \<Rightarrow> Inl (ValueErrorLiteral s)
      | c # cs \<Rightarrow>
          if c = CHR ''-'' then int_of_digits s (- 1) cs
          else if c = CHR ''+'' then int_of_digits s 1 cs
          else int_of_digits s 1 (c # cs))"

fun py_int :: "pyval \<Rightarrow> exc + int" where
  "py_int (PInt i) = Inr i"
| "py_int (PBool b) = Inr (if b then 1 else 0)"
| "py_int (PStr s) = int_of_string s"
| "py_int PNaN = Inl ValueErrorNaN"
| "py_int PNone = Inl TypeErrorInt"

function nat_digits :: "nat \<Rightarrow> string" where
  "nat_digits n =
     (if n < 10 then [''0123456789'' ! n]
      else nat_digits (n div 10) @ [''0123456789'' ! (n mod 10)])"
  by pat_completeness auto
termination
  by (relation "measure id") auto

definition str_int :: "int \<Rightarrow> string" where
  \<comment> \<open>\<^verbatim>\<open>str(i)\<close>\<close>
  "str_int i = (if i < 0 then CHR ''-'' # nat_digits (nat (- i)) else nat_digits (nat i))"

fun py_str :: "pyval \<Rightarrow> exc + string" where
  "py_str (PStr s) = Inr s"
| "py_str (PInt i) = Inr (str_int i)"
| "py_str (PBool b) = Inr (if b then ''True'' else ''False'')"
| "py_str PNaN = Inr ''nan''"
| "py_str PNone = Inr ''None''"

fun starts_with :: "string \<Rightarrow> string \<Rightarrow> bool" where
  "starts_with [] s = True"
| "starts_with (d # ds) [] = False"
| "starts_with (d # ds) (c # cs) = (d = c \<and> starts_with ds cs)"

text \<open>
  \<^verbatim>\<open>s.split(sep)\<close> for a non-empty separator: the text is cut at every occurrence
  of the separator, found from the left. The second argument collects, reversed, the
  characters of the current piece.
\<close>

function split_from :: "string \<Rightarrow> string \<Rightarrow> string \<Rightarrow> string list" where
  "split_from sep cur [] = [rev cur]"
| "split_from sep cur (c # cs) =
     (if sep \<noteq> [] \<and> starts_with sep (c # cs)
      then rev cur # split_from sep [] (drop (length sep) (c # cs))
      else split_from sep (c # cur) cs)"
  by pat_completeness auto
termination
  by (relation "measure (\<lambda>(sep, cur, s). length s)") auto

text \<open>\<^verbatim>\<open>sep.join(xs)\<close>, the inverse of the split.\<close>

fun join :: "string \<Rightarrow> string list \<Rightarrow> string" where
  "join sep [] = []"
| "join sep [x] = x"
| "join sep (x # y # ys) = x @ sep @ join sep (y # ys)"

definition str_split :: "string \<Rightarrow> string \<Rightarrow> exc + string list" where
  "str_split s sep = (if sep = [] then Inl ValueErrorSeparator else Inr (split_from sep [] s))"

text \<open>\<^verbatim>\<open>str.upper\<close> on the letters a to z; other characters are kept.\<close>

definition upper_char :: "char \<Rightarrow> char" where
  "upper_char c =
     (case map_of (zip ''abcdefghijklmnopqrstuvwxyz'' ''ABCDEFGHIJKLMNOPQRSTUVWXYZ'') c of
        None \<Rightarrow> c
      | Some u \<Rightarrow> u)"

definition upper :: "string \<Rightarrow> string" where
  "upper s = map upper_char s"

fun truthy :: "pyval \<Rightarrow> bool" where
  "truthy PNone = False"
| "truthy (PBool b) = b"
| "truthy (PInt i) = (i \<noteq> 0)"
| "truthy (PStr s) = (s \<noteq> [])"
| "truthy PNaN = True"

text \<open>A list comprehension \<^verbatim>\<open>[return_type(x) for x in xs]\<close>: the first failure ends it.\<close>

fun convert_all :: "(pyval \<Rightarrow> exc + 'a) \<Rightarrow> pyval list \<Rightarrow> exc + 'a list" where
  "convert_all return_type [] = Inr []"
| "convert_all return_type (x # xs) =
     (case return_type x of
        Inl e \<Rightarrow> Inl e
      | Inr v \<Rightarrow>
          (case convert_all return_type xs of Inl e \<Rightarrow> Inl e | Inr vs \<Rightarrow> Inr (v # vs)))"

section \<open>Reading the values of one dimension\<close>

text \<open>
  \<^verbatim>\<open>get_dimensional_values(keys_in, key, delim, return_type)\<close>
  (\<^verbatim>\<open>sisepuede_cl.py\<close>, lines 141 to 175). \<^verbatim>\<open>None\<close> is returned for an input
  that is no string. A string that names an existing path is read as a table, and only
  the failure of \<^verbatim>\<open>read_csv\<close> is wrapped there; the conversion of the cells is
  outside every handler. Any other string is split and converted inside one handler.
\<close>

definition get_dimensional_values ::
  "filesystem \<Rightarrow> pyval \<Rightarrow> string \<Rightarrow> string \<Rightarrow> (pyval \<Rightarrow> exc + 'a) \<Rightarrow> error + 'a list option"
where
  "get_dimensional_values fs keys_in key delim return_type =
     (case keys_in of
        PStr s \<Rightarrow>
          if path_exists fs s then
            (case fs s of
               Some (Frame df) \<Rightarrow>
                 (case map_of df key of
                    None \<Rightarrow> Inl (RuntimeErrorKeyNotFound s key)
                  | Some cells \<Rightarrow>
                      (case convert_all return_type cells of
                         Inl e \<Rightarrow> Inl (Raised e)
                       | Inr values \<Rightarrow> Inr (Some values)))
             | _ \<Rightarrow> Inl (RuntimeErrorReadFile s))
          else
            (case str_split s delim of
               Inl e \<Rightarrow> Inl (RuntimeErrorInputString e)
             | Inr tokens \<Rightarrow>
                 (case convert_all return_type (map PStr tokens) of
                    Inl e \<Rightarrow> Inl (RuntimeErrorInputString e)
                  | Inr values \<Rightarrow> Inr (Some values)))
      | _ \<Rightarrow> Inr None)"

section \<open>Collaborators outside this program\<close>

text \<open>
  \<^verbatim>\<open>ModelAttributes\<close> is used through the names of the four dimensions and
  through the attribute table \<^verbatim>\<open>abbreviation_sector\<close>: its key values (the sector
  abbreviations) and its column \<^verbatim>\<open>sector\<close> (the full sector names).
\<close>

record model_attributes =
  dim_design_id :: string
  dim_future_id :: string
  dim_primary_id :: string
  dim_strategy_id :: string
  key_values :: "string list"
  table_sector :: "string list"

text \<open>
  \<^verbatim>\<open>support_classes.Regions\<close> is used through its field \<^verbatim>\<open>key\<close> and through
  \<^verbatim>\<open>return_region_or_iso(x, return_type = "region")\<close>, which gives the region a
  name or ISO code stands for, or \<^verbatim>\<open>None\<close>.
\<close>

record regions_obj =
  key :: string
  return_region_or_iso :: "string \<Rightarrow> string option"

section \<open>Models and regions\<close>

text \<open>\<^verbatim>\<open>get_models(models, model_attributes, delim)\<close>, lines 24 to 48.\<close>

definition get_models ::
  "pyval \<Rightarrow> model_attributes \<Rightarrow> string \<Rightarrow> error + string list option"
where
  "get_models models ma delim =
     (case models of
        PStr s \<Rightarrow>
          if upper s = ''ALL'' then Inr None
          else
            (let valid_models = key_values ma @ table_sector ma
             in case str_split s delim of
                  Inl e \<Rightarrow> Inl (Raised e)
                | Inr tokens \<Rightarrow> Inr (Some [x \<leftarrow> tokens. x \<in> set valid_models]))
      | _ \<Rightarrow> Inr None)"

text \<open>\<^verbatim>\<open>get_regions(region_args, regions_obj, delim)\<close>, lines 52 to 81.\<close>

definition get_regions ::
  "filesystem \<Rightarrow> pyval \<Rightarrow> regions_obj \<Rightarrow> string \<Rightarrow> error + string list option"
where
  "get_regions fs region_args ro delim =
     (case region_args of
        PStr s \<Rightarrow>
          if s = ''ALLREGIONS'' then Inr None
          else
            (case get_dimensional_values fs region_args (key ro) delim py_str of
               Inl e \<Rightarrow> Inl e
             | Inr None \<Rightarrow> Inl (Raised TypeErrorNotIterable)
             | Inr (Some regions) \<Rightarrow>
                 Inr (Some (List.map_filter (return_region_or_iso ro) regions)))
      | _ \<Rightarrow> Inr (Some []))"

section \<open>The dimensional dictionary\<close>

text \<open>
  The argument dictionary maps the names argparse derives from the flags to their
  values; \<^verbatim>\<open>args.get(k)\<close> is \<^verbatim>\<open>None\<close> for a missing key. A value that is no
  dictionary can be passed as well.
\<close>

datatype pyobj = Dict "string \<rightharpoonup> pyval" | NonDict

definition args_get :: "(string \<rightharpoonup> pyval) \<Rightarrow> string \<Rightarrow> pyval" where
  "args_get args k = (case args k of None \<Rightarrow> PNone | Some v \<Rightarrow> v)"

text \<open>The default values of the four key parameters, which every call in the program uses.\<close>

definition cl_key_design :: string where "cl_key_design = ''keys_design''"
definition cl_key_future :: string where "cl_key_future = ''keys_future''"
definition cl_key_primary :: string where "cl_key_primary = ''keys_primary''"
definition cl_key_strategy :: string where "cl_key_strategy = ''keys_strategy''"

text \<open>
  The resulting dictionary keeps its entries in insertion order; \<^verbatim>\<open>dict.update\<close>
  on a key that is present replaces the value in place, as \<^const>\<open>AList.update\<close> does.
\<close>

type_synonym dims = "(string \<times> int list) list"

text \<open>
  One pass of the body shared by both branches: read the values of the dimension
  and store them under \<^verbatim>\<open>key\<close> unless they are \<^verbatim>\<open>None\<close>. The key is
  \<^verbatim>\<open>dict_key_map.get(k)\<close>; the four command-line keys are distinct constants, so
  the lookup gives the dimension name that the literal pairs with \<^verbatim>\<open>k\<close>.
\<close>

definition assign_dimension ::
  "filesystem \<Rightarrow> (string \<rightharpoonup> pyval) \<Rightarrow> dims \<Rightarrow> string \<times> string \<Rightarrow> error + dims"
where
  "assign_dimension fs args dict_out kk =
     (case get_dimensional_values fs (args_get args (fst kk)) (snd kk) '','' py_int of
        Inl e \<Rightarrow> Inl e
      | Inr None \<Rightarrow> Inr dict_out
      | Inr (Some vals) \<Rightarrow> Inr (AList.update (snd kk) vals dict_out))"

fun assign_dimensions ::
  "filesystem \<Rightarrow> (string \<rightharpoonup> pyval) \<Rightarrow> dims \<Rightarrow> (string \<times> string) list \<Rightarrow> error + dims"
where
  "assign_dimensions fs args dict_out [] = Inr dict_out"
| "assign_dimensions fs args dict_out (kk # kks) =
     (case assign_dimension fs args dict_out kk of
        Inl e \<Rightarrow> Inl e
      | Inr d \<Rightarrow> assign_dimensions fs args d kks)"

text \<open>\<^verbatim>\<open>get_dimensional_dict(args, model_attributes)\<close>, lines 85 to 137.\<close>

definition get_dimensional_dict ::
  "filesystem \<Rightarrow> pyobj \<Rightarrow> model_attributes \<Rightarrow> error + dims option"
where
  "get_dimensional_dict fs args ma =
     (case args of
        NonDict \<Rightarrow> Inr None
      | Dict a \<Rightarrow>
          (case (if args_get a cl_key_primary \<noteq> PNone
                 then assign_dimension fs a [] (cl_key_primary, dim_primary_id ma)
                 else assign_dimensions fs a []
                        [(cl_key_design, dim_design_id ma),
                         (cl_key_future, dim_future_id ma),
                         (cl_key_strategy, dim_strategy_id ma)])
           of
             Inl e \<Rightarrow> Inl e
           | Inr dict_out \<Rightarrow> Inr (if length dict_out = 0 then None else Some dict_out)))"

section \<open>The run\<close>

text \<open>
  The execution engine is the class \<^verbatim>\<open>sisepuede.SISEPUEDE\<close>. The front end
  instantiates it, calls the instance on the scenarios, and has it log the end of the
  run. Each of these is recorded with the arguments it is given.
\<close>

record init_args =
  db_type :: pyval
  id_str :: pyval
  n_trials :: pyval
  random_seed :: pyval
  regions :: "string list option"

record call_args =
  dict_scenarios :: dims
  chunk_size :: int
  check_results :: bool
  include_electricity_in_energy :: bool
  max_attempts :: pyval
  reinitialize_output_table_on_verification_failure :: bool
  save_inputs :: pyval

datatype engine_call = Instantiate init_args | Run call_args | Log

text \<open>The engine says of each call whether it raises, and with what.\<close>

type_synonym engine = "engine_call \<Rightarrow> string option"

record environment =
  files :: filesystem
  attributes :: model_attributes
  region_registry :: regions_obj
  sisepuede :: engine

text \<open>
  The calls to the engine, in order, until one raises: the outcome and the calls made.
\<close>

fun run_calls :: "engine \<Rightarrow> engine_call list \<Rightarrow> (error + int) \<times> engine_call list" where
  "run_calls eng [] = (Inr 0, [])"
| "run_calls eng (c # cs) =
     (case eng c of
        Some msg \<Rightarrow> (Inl (EngineError msg), [c])
      | None \<Rightarrow> (case run_calls eng cs of (r, done) \<Rightarrow> (r, c # done)))"

text \<open>
  \<^verbatim>\<open>main(args)\<close>, lines 494 to 581. The result pairs what the function returns or
  raises with the calls that reached the engine. The check
  \<^verbatim>\<open>return_none |= (dict_scenarios is None)\<close> of line 548 adds nothing: a
  \<^verbatim>\<open>None\<close> has raised at line 531 already.
\<close>

definition main :: "environment \<Rightarrow> (string \<rightharpoonup> pyval) \<Rightarrow> (error + int) \<times> engine_call list" where
  "main env args =
     (case get_models (args_get args ''models'') (attributes env) '','' of
        Inl e \<Rightarrow> (Inl e, [])
      | Inr models \<Rightarrow>
     (case get_regions (files env) (args_get args ''regions'') (region_registry env) '','' of
        Inl e \<Rightarrow> (Inl e, [])
      | Inr regions_run \<Rightarrow>
     (case get_dimensional_dict (files env) (Dict args) (attributes env) of
        Inl e \<Rightarrow> (Inl e, [])
      | Inr None \<Rightarrow> (Inl RuntimeErrorNoDimensions, [])
      | Inr (Some scenarios) \<Rightarrow>
          (let db = args_get args ''database_type'';
               db = (if db \<notin> set [PStr ''sqlite'', PStr ''csv''] then PStr ''sqlite'' else db);
               include_fuel_prod = (\<not> truthy (args_get args ''exclude_fuel_production''));
               return_none = (regions_run = None);
               return_none = (return_none \<or> (if \<not> return_none then length scenarios = 0 else False))
           in if return_none then (Inl RuntimeErrorInvalidSpecification, [])
              else
                run_calls (sisepuede env)
                  [Instantiate
                     \<lparr>db_type = db,
                      id_str = args_get args ''id'',
                      n_trials = args_get args ''n_trials'',
                      random_seed = args_get args ''random_seed'',
                      regions = regions_run\<rparr>,
                   Run
                     \<lparr>dict_scenarios = scenarios,
                      chunk_size = 2,
                      check_results = True,
                      include_electricity_in_energy = include_fuel_prod,
                      max_attempts = args_get args ''max_solve_attempts'',
                      reinitialize_output_table_on_verification_failure = True,
                      save_inputs = args_get args ''save_inputs''\<rparr>,
                   Log]))))"

section \<open>Concrete inputs\<close>

definition example_attributes :: model_attributes where
  "example_attributes =
     \<lparr>dim_design_id = ''design_id'',
      dim_future_id = ''future_id'',
      dim_primary_id = ''primary_id'',
      dim_strategy_id = ''strategy_id'',
      key_values = [''af'', ''ce'', ''en'', ''ip''],
      table_sector = [''AFOLU'', ''Circular Economy'', ''Energy'', ''IPPU'']\<rparr>"

definition example_regions :: regions_obj where
  "example_regions =
     \<lparr>key = ''region'',
      return_region_or_iso =
        map_of [(''bra'', ''brazil''), (''brazil'', ''brazil''),
                (''chl'', ''chile''), (''chile'', ''chile'')]\<rparr>"

definition example_files :: filesystem where
  "example_files =
     [''futures.csv'' \<mapsto> Frame [(''future_id'', [PInt 0, PInt 5, PInt 12])],
      ''strategies.csv'' \<mapsto> Frame [(''strategy_id'', [PInt 0, PInt 1])],
      ''no_rows.csv'' \<mapsto> Frame [(''future_id'', [])],
      ''mixed.csv'' \<mapsto> Frame [(''future_id'', [PStr ''1'', PStr ''abc'', PStr ''3''])],
      ''regions.csv'' \<mapsto> Frame [(''region'', [PStr ''chile'', PStr ''nowhere''])]]"

definition example_env :: environment where
  "example_env =
     \<lparr>files = example_files,
      attributes = example_attributes,
      region_registry = example_regions,
      sisepuede = (\<lambda>c. None)\<rparr>"

text \<open>
  The dictionary argparse builds for
  \<^verbatim>\<open>--regions bra,xx,chl --keys-primary 10,11 --keys-design 1 --keys-future 2\<close>,
  and the call it leads to.
\<close>

definition example_args :: "string \<rightharpoonup> pyval" where
  "example_args =
     map_of [(''regions'', PStr ''bra,xx,chl''),
             (''keys_design'', PStr ''1''),
             (''keys_future'', PStr ''2''),
             (''keys_primary'', PStr ''10,11''),
             (''keys_strategy'', PNone),
             (''database_type'', PStr ''sqlite''),
             (''exclude_fuel_production'', PBool False),
             (''id'', PNone),
             (''n_trials'', PNone),
             (''max_solve_attempts'', PInt 2),
             (''models'', PStr ''All''),
             (''random_seed'', PNone),
             (''save_inputs'', PBool False)]"

definition example_init :: "string list option \<Rightarrow> init_args" where
  "example_init rs =
     \<lparr>db_type = PStr ''sqlite'', id_str = PNone, n_trials = PNone, random_seed = PNone,
      regions = rs\<rparr>"

definition example_request :: call_args where
  "example_request =
     \<lparr>dict_scenarios = [(''primary_id'', [10, 11])],
      chunk_size = 2,
      check_results = True,
      include_electricity_in_energy = True,
      max_attempts = PInt 2,
      reinitialize_output_table_on_verification_failure = True,
      save_inputs = PBool False\<rparr>"

text \<open>Dimension arguments alone: none given; a future file without rows; a blank future.\<close>

definition example_args_none :: "string \<rightharpoonup> pyval" where
  "example_args_none =
     map_of [(''keys_design'', PNone), (''keys_future'', PNone),
             (''keys_primary'', PNone), (''keys_strategy'', PNone)]"

definition example_args_no_rows :: "string \<rightharpoonup> pyval" where
  "example_args_no_rows =
     map_of [(''keys_design'', PStr ''1,2''), (''keys_future'', PStr ''no_rows.csv''),
             (''keys_strategy'', PNone)]"

definition example_args_blank :: "string \<rightharpoonup> pyval" where
  "example_args_blank =
     map_of [(''keys_design'', PStr ''1,2''), (''keys_future'', PStr []),
             (''keys_strategy'', PNone)]"

lemmas evaluation =
  int_of_string_def int_of_digits_def int_max_str_digits_def is_space_def whitespace_def
  digit_value_def str_int_def
  str_split_def get_dimensional_values_def path_exists_def args_get_def
  get_models_def get_regions_def get_dimensional_dict_def assign_dimension_def
  upper_def upper_char_def List.map_filter_def main_def
  cl_key_design_def cl_key_future_def cl_key_primary_def cl_key_strategy_def
  example_files_def example_attributes_def example_regions_def example_env_def
  example_args_def example_init_def example_request_def
  example_args_none_def example_args_no_rows_def example_args_blank_def

section \<open>Properties of the readers\<close>

declare nat_digits.simps [simp del]

lemma convert_all_PInt: "convert_all py_int (map PInt ids) = Inr ids"
  by (induction ids) simp_all



lemma convert_all_str: "convert_all py_str (map PStr toks) = Inr toks"
  by (induction toks) simp_all

lemma convert_all_fails:
  "x \<in> set xs \<Longrightarrow> return_type x = Inl e0 \<Longrightarrow> \<exists>e. convert_all return_type xs = Inl e"
  by (induction xs) (auto split: sum.splits)

text \<open>The pieces of a split, joined by the separator, give the text back.\<close>

lemma starts_with_drop: "starts_with sep s \<Longrightarrow> sep @ drop (length sep) s = s"
  by (induction sep s rule: starts_with.induct) auto

lemma split_from_nonempty: "split_from sep cur s \<noteq> []"
  by (induction sep cur s rule: split_from.induct) auto

lemma join_Cons: "xs \<noteq> [] \<Longrightarrow> join sep (x # xs) = x @ sep @ join sep xs"
  by (cases xs) auto

lemma join_split_from: "join sep (split_from sep cur s) = rev cur @ s"
proof (induction sep cur s rule: split_from.induct)
  case (1 sep cur)
  then show ?case by simp
next
  case (2 sep cur c cs)
  then show ?case
    by (auto simp: join_Cons split_from_nonempty starts_with_drop
             simp del: starts_with.simps drop.simps)
qed
















text \<open>The branches of the reader, for any conversion.\<close>

lemma inline_text_read:
  "\<not> path_exists fs s \<Longrightarrow> delim \<noteq> [] \<Longrightarrow>
   get_dimensional_values fs (PStr s) col delim py_str = Inr (Some (split_from delim [] s))"
  by (simp add: get_dimensional_values_def str_split_def convert_all_str)

lemma unreadable_file_read:
  "path_exists fs s \<Longrightarrow> fs s = Some Unreadable \<Longrightarrow>
   get_dimensional_values fs (PStr s) col delim return_type = Inl (RuntimeErrorReadFile s)"
  by (simp add: get_dimensional_values_def)

lemma missing_column_read:
  "path_exists fs s \<Longrightarrow> fs s = Some (Frame df) \<Longrightarrow> col \<notin> fst ` set df \<Longrightarrow>
   get_dimensional_values fs (PStr s) col delim return_type = Inl (RuntimeErrorKeyNotFound s col)"
  by (auto simp: get_dimensional_values_def dest: iffD2 [OF map_of_eq_None_iff])

lemma column_read:
  "path_exists fs s \<Longrightarrow> fs s = Some (Frame df) \<Longrightarrow> map_of df col = Some cells \<Longrightarrow>
   convert_all return_type cells = Inr toks \<Longrightarrow>
   get_dimensional_values fs (PStr s) col delim return_type = Inr (Some toks)"
  by (simp add: get_dimensional_values_def)

text \<open>
  A file column with a cell that is text and no integer literal: the read raises,
  whatever the other cells are.
\<close>

lemma file_read_strict:
  assumes "path_exists fs p" and "fs p = Some (Frame df)" and "map_of df col = Some cells"
    and "PStr t \<in> set cells" and "int_of_string t = Inl e0"
  shows "\<exists>e. get_dimensional_values fs (PStr p) col delim py_int = Inl (Raised e)"
proof -
  from assms(4,5) have "\<exists>e. convert_all py_int cells = Inl e"
    by (intro convert_all_fails [where x = "PStr t"]) simp_all
  with assms(1-3) show ?thesis
    by (auto simp: get_dimensional_values_def)
qed

text \<open>
  Claim C5. The claim: when the ids are read from an existing file, values of the key
  column that are no numbers are skipped and the others returned. The code converts
  every cell outside any handler, so the first such value ends the read with the
  \<^verbatim>\<open>ValueError\<close> of \<^verbatim>\<open>int\<close>: a column holding \<^verbatim>\<open>1\<close>, \<^verbatim>\<open>abc\<close>,
  \<^verbatim>\<open>3\<close> gives no list.
\<close>

theorem file_read_fails_on_non_numeric:
  "get_dimensional_values example_files (PStr ''mixed.csv'') ''future_id'' '','' py_int =
     Inl (Raised (ValueErrorLiteral ''abc''))"
  by (simp add: evaluation)

text \<open>
  Claim C6. When the raw input names an existing path that reads as a table, the call
  fails with the error that carries the path and the column name whenever the table has
  no column named after the dimension key; and a column of integers is returned as it
  is, in order (rows 0, 5, 12 of column \<^verbatim>\<open>future_id\<close> give \<^verbatim>\<open>[0, 5, 12]\<close>).
\<close>

theorem file_column_read:
  assumes "path_exists fs p" and "fs p = Some (Frame df)"
  shows "(col \<notin> fst ` set df \<longrightarrow>
            get_dimensional_values fs (PStr p) col delim return_type =
              Inl (RuntimeErrorKeyNotFound p col))
       \<and> (map_of df col = Some (map PInt ids) \<longrightarrow>
            get_dimensional_values fs (PStr p) col delim py_int = Inr (Some ids))"
  using assms
  by (auto simp: get_dimensional_values_def convert_all_PInt
           dest: iffD2 [OF map_of_eq_None_iff])

theorem file_column_read_witness:
  "path_exists example_files ''futures.csv''
   \<and> example_files ''futures.csv'' = Some (Frame [(''future_id'', [PInt 0, PInt 5, PInt 12])])
   \<and> get_dimensional_values example_files (PStr ''futures.csv'') ''design_id'' '','' py_int =
       Inl (RuntimeErrorKeyNotFound ''futures.csv'' ''design_id'')
   \<and> get_dimensional_values example_files (PStr ''futures.csv'') ''future_id'' '','' py_int =
       Inr (Some [0, 5, 12])"
proof -
  have e: "path_exists example_files ''futures.csv''"
    by (simp add: path_exists_def example_files_def)
  have f: "example_files ''futures.csv'' = Some (Frame [(''future_id'', [PInt 0, PInt 5, PInt 12])])"
    by (simp add: example_files_def)
  from file_column_read [OF e f, of "''design_id''" "'',''" py_int "[0, 5, 12]"]
       file_column_read [OF e f, of "''future_id''" "'',''" py_int "[0, 5, 12]"]
  show ?thesis using e f by simp
qed




section \<open>Properties of the dimensional dictionary\<close>

lemma blank_input_fails:
  "get_dimensional_values fs (PStr []) col '','' py_int =
     Inl (RuntimeErrorInputString (ValueErrorLiteral []))"
  by (simp add: get_dimensional_values_def path_exists_def str_split_def int_of_string_def)

lemma non_string_reads_none:
  "\<forall>s. v \<noteq> PStr s \<Longrightarrow> get_dimensional_values fs v col delim return_type = Inr None"
  by (cases v) (simp_all add: get_dimensional_values_def)

text \<open>
  Claim C2. When the primary selector is present (not \<^verbatim>\<open>None\<close>), only it is read:
  the ids it resolves to are returned as the single entry under the primary key; a
  dictionary that is returned has that entry and no other; and the result is the same
  whatever the arguments hold for design, future and strategy.
\<close>

theorem primary_takes_precedence:
  assumes "args_get a cl_key_primary \<noteq> PNone"
  shows "(\<forall>ids. get_dimensional_values fs (args_get a cl_key_primary) (dim_primary_id ma)
                   '','' py_int = Inr (Some ids) \<longrightarrow>
            get_dimensional_dict fs (Dict a) ma = Inr (Some [(dim_primary_id ma, ids)]))
       \<and> (\<forall>d. get_dimensional_dict fs (Dict a) ma = Inr (Some d) \<longrightarrow>
            (\<exists>ids. d = [(dim_primary_id ma, ids)]))
       \<and> (\<forall>b. args_get b cl_key_primary = args_get a cl_key_primary \<longrightarrow>
            get_dimensional_dict fs (Dict b) ma = get_dimensional_dict fs (Dict a) ma)"
  using assms
  by (auto simp: get_dimensional_dict_def assign_dimension_def split: sum.splits option.splits)

theorem primary_takes_precedence_witness:
  "args_get example_args cl_key_primary \<noteq> PNone
   \<and> args_get example_args cl_key_design = PStr ''1''
   \<and> args_get example_args cl_key_future = PStr ''2''
   \<and> get_dimensional_dict example_files (Dict example_args) example_attributes =
       Inr (Some [(''primary_id'', [10, 11])])"
proof -
  have p: "args_get example_args cl_key_primary \<noteq> PNone"
    by (simp add: args_get_def example_args_def cl_key_primary_def)
  have r: "get_dimensional_values example_files (args_get example_args cl_key_primary)
             (dim_primary_id example_attributes) '','' py_int = Inr (Some [10, 11])"
    by (simp add: evaluation)
  from primary_takes_precedence [OF p, where fs = example_files and ma = example_attributes] r
  have "get_dimensional_dict example_files (Dict example_args) example_attributes =
          Inr (Some [(dim_primary_id example_attributes, [10, 11])])"
    by blast
  then show ?thesis
    using p
    by (simp add: example_attributes_def)
       (simp add: args_get_def example_args_def cl_key_design_def cl_key_future_def)
qed

text \<open>
  Claim C3, as the claim has it: the arguments
  \<^verbatim>\<open>{design: "1,2", future: "", strategy: null}\<close> give
  \<^verbatim>\<open>{design_key: [1, 2], future_key: []}\<close>. They do not: the blank string names
  no path, splits into the one token \<^verbatim>\<open>""\<close>, and \<^verbatim>\<open>int("")\<close> raises.
\<close>

theorem blank_future_counterexample:
  "get_dimensional_dict example_files (Dict example_args_blank) example_attributes \<noteq>
     Inr (Some [(''design_id'', [1, 2]), (''future_id'', [])])"
  by (simp add: evaluation)

text \<open>
  Claim C3, amended. With no primary selector, a dimension whose read gives the empty
  list (a file that has the key column and no rows) is stored with the empty list under
  its key, and the result is a dictionary, provided the other reads do not fail and
  the three dimension names differ. A blank string is no such input: the read of a
  blank future fails, and with it the call.
\<close>

theorem empty_dimension_kept:
  assumes "args_get a cl_key_primary = PNone"
  shows "(\<forall>kk. kk \<in> set [(cl_key_design, dim_design_id ma),
                         (cl_key_future, dim_future_id ma),
                         (cl_key_strategy, dim_strategy_id ma)]
              \<and> distinct [dim_design_id ma, dim_future_id ma, dim_strategy_id ma]
              \<and> (\<exists>v. get_dimensional_values fs (args_get a cl_key_design)
                        (dim_design_id ma) '','' py_int = Inr v)
              \<and> (\<exists>v. get_dimensional_values fs (args_get a cl_key_future)
                        (dim_future_id ma) '','' py_int = Inr v)
              \<and> (\<exists>v. get_dimensional_values fs (args_get a cl_key_strategy)
                        (dim_strategy_id ma) '','' py_int = Inr v)
              \<and> get_dimensional_values fs (args_get a (fst kk)) (snd kk) '','' py_int
                   = Inr (Some [])
            \<longrightarrow> (\<exists>d. get_dimensional_dict fs (Dict a) ma = Inr (Some d)
                      \<and> map_of d (snd kk) = Some []))
       \<and> ((\<exists>v. get_dimensional_values fs (args_get a cl_key_design)
                  (dim_design_id ma) '','' py_int = Inr v)
              \<and> args_get a cl_key_future = PStr []
            \<longrightarrow> get_dimensional_dict fs (Dict a) ma =
                  Inl (RuntimeErrorInputString (ValueErrorLiteral [])))"
  using assms
  by (auto simp: get_dimensional_dict_def assign_dimension_def blank_input_fails
                 update_conv' AList.update_nonempty
           split: option.splits)

theorem empty_dimension_kept_witness:
  "args_get example_args_no_rows cl_key_primary = PNone
   \<and> get_dimensional_values example_files (args_get example_args_no_rows cl_key_future)
        ''future_id'' '','' py_int = Inr (Some [])
   \<and> get_dimensional_dict example_files (Dict example_args_no_rows) example_attributes =
        Inr (Some [(''design_id'', [1, 2]), (''future_id'', [])])
   \<and> args_get example_args_blank cl_key_primary = PNone
   \<and> args_get example_args_blank cl_key_future = PStr []
   \<and> get_dimensional_dict example_files (Dict example_args_blank) example_attributes =
        Inl (RuntimeErrorInputString (ValueErrorLiteral []))"
proof -
  have p: "args_get example_args_no_rows cl_key_primary = PNone"
    by (simp add: args_get_def example_args_no_rows_def cl_key_primary_def)
  have q: "args_get example_args_blank cl_key_primary = PNone"
    by (simp add: args_get_def example_args_blank_def cl_key_primary_def)
  have f: "args_get example_args_blank cl_key_future = PStr []"
    by (simp add: args_get_def example_args_blank_def cl_key_future_def)
  have d: "get_dimensional_values example_files (args_get example_args_blank cl_key_design)
             (dim_design_id example_attributes) '','' py_int = Inr (Some [1, 2])"
    by (simp add: evaluation)
  from empty_dimension_kept [OF q, where fs = example_files and ma = example_attributes] d f
  have blank: "get_dimensional_dict example_files (Dict example_args_blank) example_attributes =
                 Inl (RuntimeErrorInputString (ValueErrorLiteral []))"
    by blast
  have e: "get_dimensional_values example_files (args_get example_args_no_rows cl_key_future)
             ''future_id'' '','' py_int = Inr (Some [])"
    by (simp add: evaluation)
  have "get_dimensional_dict example_files (Dict example_args_no_rows) example_attributes =
          Inr (Some [(''design_id'', [1, 2]), (''future_id'', [])])"
    using empty_dimension_kept [OF p, where fs = example_files and ma = example_attributes]
    by (simp add: evaluation)
  with p q f e blank show ?thesis by simp
qed

text \<open>
  Claim C4. The resolver never returns a dictionary without entries, and when none of
  the four inputs is a string (so none can be read) it returns \<^verbatim>\<open>None\<close>; so it
  does when all four are \<^verbatim>\<open>None\<close>.
\<close>

theorem nothing_usable_gives_none:
  "get_dimensional_dict fs args ma \<noteq> Inr (Some [])
   \<and> ((\<forall>k \<in> set [cl_key_design, cl_key_future, cl_key_primary, cl_key_strategy].
          \<forall>s. args_get a k \<noteq> PStr s) \<longrightarrow>
        get_dimensional_dict fs (Dict a) ma = Inr None)"
proof -
  have "get_dimensional_dict fs args ma \<noteq> Inr (Some [])"
    by (auto simp: get_dimensional_dict_def split: pyobj.splits sum.splits)
  then show ?thesis
    by (auto simp: get_dimensional_dict_def assign_dimension_def non_string_reads_none)
qed

theorem nothing_usable_gives_none_witness:
  "args_get example_args_none cl_key_design = PNone
   \<and> args_get example_args_none cl_key_future = PNone
   \<and> args_get example_args_none cl_key_primary = PNone
   \<and> args_get example_args_none cl_key_strategy = PNone
   \<and> get_dimensional_dict example_files (Dict example_args_none) example_attributes = Inr None"
proof -
  have n: "args_get example_args_none cl_key_design = PNone"
    "args_get example_args_none cl_key_future = PNone"
    "args_get example_args_none cl_key_primary = PNone"
    "args_get example_args_none cl_key_strategy = PNone"
    by (simp_all add: args_get_def example_args_none_def cl_key_design_def cl_key_future_def
                      cl_key_primary_def cl_key_strategy_def)
  then have "\<forall>k \<in> set [cl_key_design, cl_key_future, cl_key_primary, cl_key_strategy].
               \<forall>s. args_get example_args_none k \<noteq> PStr s"
    by simp
  with nothing_usable_gives_none [of example_files "Dict example_args_none" example_attributes
                                     example_args_none]
  have "get_dimensional_dict example_files (Dict example_args_none) example_attributes = Inr None"
    by blast
  with n show ?thesis by simp
qed

section \<open>Properties of the model and region selectors\<close>

lemma upper_char_A: "upper_char c = CHR ''A'' \<longleftrightarrow> c = CHR ''a'' \<or> c = CHR ''A''"
  by (simp add: upper_char_def)

lemma upper_char_L: "upper_char c = CHR ''L'' \<longleftrightarrow> c = CHR ''l'' \<or> c = CHR ''L''"
  by (simp add: upper_char_def)

lemma upper_ALL:
  "upper s = ''ALL'' \<longleftrightarrow>
     s \<in> set [''all'', ''alL'', ''aLl'', ''aLL'', ''All'', ''AlL'', ''ALl'', ''ALL'']"
proof -
  have "upper s = ''ALL'' \<longleftrightarrow>
        (\<exists>a b c. s = [a, b, c] \<and> upper_char a = CHR ''A'' \<and> upper_char b = CHR ''L''
                  \<and> upper_char c = CHR ''L'')"
    unfolding upper_def by (auto simp: map_eq_Cons_conv)
  also have "\<dots> \<longleftrightarrow> (\<exists>a b c. s = [a, b, c] \<and> (a = CHR ''a'' \<or> a = CHR ''A'')
                  \<and> (b = CHR ''l'' \<or> b = CHR ''L'') \<and> (c = CHR ''l'' \<or> c = CHR ''L''))"
    by (simp only: upper_char_A upper_char_L)
  also have "\<dots> \<longleftrightarrow>
      s \<in> set [''all'', ''alL'', ''aLl'', ''aLL'', ''All'', ''AlL'', ''ALl'', ''ALL'']"
    by auto
  finally show ?thesis .
qed

text \<open>
  Claim C8. The model selector returns \<^verbatim>\<open>None\<close> exactly when its input is no
  string or is, letter case aside, the word \<^verbatim>\<open>all\<close>. Any other string is split on
  the (non-empty) delimiter, and the tokens that are abbreviations or full names of
  sectors are returned in their order, the others dropped; the list may be empty and is
  never replaced by \<^verbatim>\<open>None\<close>.
\<close>

theorem models_selected:
  "(get_models m ma delim = Inr None)
      = ((\<forall>s. m \<noteq> PStr s)
         \<or> (\<exists>s \<in> set [''all'', ''alL'', ''aLl'', ''aLL'', ''All'', ''AlL'', ''ALl'', ''ALL''].
              m = PStr s))
   \<and> (\<forall>s. m = PStr s \<and> upper s \<noteq> ''ALL'' \<and> delim \<noteq> [] \<longrightarrow>
         get_models m ma delim =
           Inr (Some (filter (\<lambda>x. x \<in> set (key_values ma) \<or> x \<in> set (table_sector ma))
                        (split_from delim [] s))))"
proof -
  have "(get_models m ma delim = Inr None)
          = ((\<forall>s. m \<noteq> PStr s) \<or> (\<exists>s. m = PStr s \<and> upper s = ''ALL''))"
    by (cases m) (auto simp: get_models_def str_split_def)
  also have "\<dots> = ((\<forall>s. m \<noteq> PStr s)
         \<or> (\<exists>s \<in> set [''all'', ''alL'', ''aLl'', ''aLL'', ''All'', ''AlL'', ''ALl'', ''ALL''].
              m = PStr s))"
    unfolding upper_ALL by blast
  finally show ?thesis
    by (auto simp: get_models_def str_split_def)
qed

theorem models_selected_witness:
  "upper ''AFOLU,bogus'' \<noteq> ''ALL''
   \<and> get_models (PStr ''AFOLU,bogus'') example_attributes '','' = Inr (Some [''AFOLU''])
   \<and> upper ''bogus'' \<noteq> ''ALL''
   \<and> get_models (PStr ''bogus'') example_attributes '','' = Inr (Some [])
   \<and> get_models (PStr ''aLl'') example_attributes '','' = Inr None"
proof -
  have u: "upper ''AFOLU,bogus'' \<noteq> ''ALL''" "upper ''bogus'' \<noteq> ''ALL''"
    by (simp_all add: upper_def)
  have d: "'','' \<noteq> []" by simp
  from models_selected [of "PStr ''AFOLU,bogus''" example_attributes "'',''"] u d
  have a: "get_models (PStr ''AFOLU,bogus'') example_attributes '','' = Inr (Some [''AFOLU''])"
    by (simp add: example_attributes_def)
  from models_selected [of "PStr ''bogus''" example_attributes "'',''"] u d
  have b: "get_models (PStr ''bogus'') example_attributes '','' = Inr (Some [])"
    by (simp add: example_attributes_def)
  from models_selected [of "PStr ''aLl''" example_attributes "'',''"]
  have c: "get_models (PStr ''aLl'') example_attributes '','' = Inr None"
    by simp
  from u a b c show ?thesis by simp
qed

text \<open>
  Claim C9, as the claim has it: every string other than \<^verbatim>\<open>ALLREGIONS\<close> is cut at
  the delimiter and its tokens are resolved. A string that names an existing file is
  not: the regions are read from the column of the file that the registry's key names.
  With the file \<^verbatim>\<open>regions.csv\<close> the result is the region of its first cell, where
  the single token \<^verbatim>\<open>regions.csv\<close> resolves to nothing.
\<close>

theorem regions_file_counterexample:
  "get_regions example_files (PStr ''regions.csv'') example_regions '','' = Inr (Some [''chile''])
   \<and> List.map_filter (return_region_or_iso example_regions)
        (split_from '','' [] ''regions.csv'') = []
   \<and> get_regions example_files (PStr ''regions.csv'') example_regions '','' \<noteq>
        Inr (Some (List.map_filter (return_region_or_iso example_regions)
                     (split_from '','' [] ''regions.csv'')))"
  by (simp add: evaluation)

text \<open>
  Claim C9, amended. The region selector returns \<^verbatim>\<open>None\<close> exactly when its input
  is the string \<^verbatim>\<open>ALLREGIONS\<close>, and the empty list when its input is no string. Any
  other string that names no existing path is split on the (non-empty) delimiter, every
  token is looked up in the registry, and the regions found are returned in order, the
  tokens without a region dropped. A string that names an existing path is read as a
  table: the call fails when the file cannot be read or has no column named by the
  registry's key, and otherwise the cells of that column, as text, take the place of
  the tokens.
\<close>

theorem regions_selected:
  "(get_regions fs r ro delim = Inr None) = (r = PStr ''ALLREGIONS'')
   \<and> ((\<forall>s. r \<noteq> PStr s) \<longrightarrow> get_regions fs r ro delim = Inr (Some []))
   \<and> (\<forall>s. r = PStr s \<and> s \<noteq> ''ALLREGIONS'' \<and> \<not> path_exists fs s \<and> delim \<noteq> [] \<longrightarrow>
         get_regions fs r ro delim =
           Inr (Some (List.map_filter (return_region_or_iso ro) (split_from delim [] s))))
   \<and> (\<forall>s. r = PStr s \<and> s \<noteq> ''ALLREGIONS'' \<and> path_exists fs s \<and> fs s = Some Unreadable \<longrightarrow>
         get_regions fs r ro delim = Inl (RuntimeErrorReadFile s))
   \<and> (\<forall>s df. r = PStr s \<and> s \<noteq> ''ALLREGIONS'' \<and> path_exists fs s \<and> fs s = Some (Frame df)
            \<and> key ro \<notin> fst ` set df \<longrightarrow>
         get_regions fs r ro delim = Inl (RuntimeErrorKeyNotFound s (key ro)))
   \<and> (\<forall>s df cells toks. r = PStr s \<and> s \<noteq> ''ALLREGIONS'' \<and> path_exists fs s
            \<and> fs s = Some (Frame df) \<and> map_of df (key ro) = Some cells
            \<and> convert_all py_str cells = Inr toks \<longrightarrow>
         get_regions fs r ro delim =
           Inr (Some (List.map_filter (return_region_or_iso ro) toks)))"
proof (intro conjI allI impI)
  show "(get_regions fs r ro delim = Inr None) = (r = PStr ''ALLREGIONS'')"
  proof (cases r)
    case (PStr s)
    show ?thesis
    proof (cases "s = ''ALLREGIONS''")
      case True
      with PStr show ?thesis by (simp add: get_regions_def)
    next
      case False
      then have "get_regions fs (PStr s) ro delim \<noteq> Inr None"
        by (simp add: get_regions_def split: sum.split option.split)
      with PStr False show ?thesis by simp
    qed
  qed (simp_all add: get_regions_def)
next
  assume "\<forall>s. r \<noteq> PStr s"
  then show "get_regions fs r ro delim = Inr (Some [])"
    by (cases r) (simp_all add: get_regions_def)
next
  fix s
  assume "r = PStr s \<and> s \<noteq> ''ALLREGIONS'' \<and> \<not> path_exists fs s \<and> delim \<noteq> []"
  then show "get_regions fs r ro delim =
               Inr (Some (List.map_filter (return_region_or_iso ro) (split_from delim [] s)))"
    by (simp add: get_regions_def inline_text_read)
next
  fix s
  assume "r = PStr s \<and> s \<noteq> ''ALLREGIONS'' \<and> path_exists fs s \<and> fs s = Some Unreadable"
  then show "get_regions fs r ro delim = Inl (RuntimeErrorReadFile s)"
    by (simp add: get_regions_def unreadable_file_read)
next
  fix s df
  assume "r = PStr s \<and> s \<noteq> ''ALLREGIONS'' \<and> path_exists fs s \<and> fs s = Some (Frame df)
            \<and> key ro \<notin> fst ` set df"
  then show "get_regions fs r ro delim = Inl (RuntimeErrorKeyNotFound s (key ro))"
    by (simp add: get_regions_def missing_column_read)
next
  fix s df cells toks
  assume "r = PStr s \<and> s \<noteq> ''ALLREGIONS'' \<and> path_exists fs s
            \<and> fs s = Some (Frame df) \<and> map_of df (key ro) = Some cells
            \<and> convert_all py_str cells = Inr toks"
  then show "get_regions fs r ro delim =
               Inr (Some (List.map_filter (return_region_or_iso ro) toks))"
    by (simp add: get_regions_def column_read [where df = df and cells = cells])
qed

theorem regions_selected_witness:
  "\<not> path_exists example_files ''bra,xx,chl''
   \<and> return_region_or_iso example_regions ''xx'' = None
   \<and> get_regions example_files (PStr ''bra,xx,chl'') example_regions '','' =
       Inr (Some [''brazil'', ''chile''])
   \<and> get_regions example_files (PStr ''ALLREGIONS'') example_regions '','' = Inr None
   \<and> get_regions example_files (PInt 3) example_regions '','' = Inr (Some [])
   \<and> path_exists example_files ''regions.csv''
   \<and> get_regions example_files (PStr ''regions.csv'') example_regions '','' =
       Inr (Some [''chile''])
   \<and> path_exists example_files ''futures.csv''
   \<and> get_regions example_files (PStr ''futures.csv'') example_regions '','' =
       Inl (RuntimeErrorKeyNotFound ''futures.csv'' ''region'')"
proof -
  have p: "\<not> path_exists example_files ''bra,xx,chl''"
    by (simp add: path_exists_def example_files_def)
  have x: "return_region_or_iso example_regions ''xx'' = None"
    by (simp add: example_regions_def)
  have q: "path_exists example_files ''regions.csv''"
    by (simp add: path_exists_def example_files_def)
  have q': "path_exists example_files ''futures.csv''"
    by (simp add: path_exists_def example_files_def)
  have a: "get_regions example_files (PStr ''bra,xx,chl'') example_regions '','' =
             Inr (Some [''brazil'', ''chile''])"
  proof -
    have h: "PStr ''bra,xx,chl'' = PStr ''bra,xx,chl'' \<and> ''bra,xx,chl'' \<noteq> ''ALLREGIONS''
             \<and> \<not> path_exists example_files ''bra,xx,chl'' \<and> '','' \<noteq> []"
      using p by simp
    from regions_selected [THEN conjunct2, THEN conjunct2, THEN conjunct1, rule_format, OF h]
    have "get_regions example_files (PStr ''bra,xx,chl'') example_regions '','' =
            Inr (Some (List.map_filter (return_region_or_iso example_regions)
                         (split_from '','' [] ''bra,xx,chl'')))" .
    then show ?thesis
      by (simp add: example_regions_def List.map_filter_def)
  qed
  have b: "get_regions example_files (PStr ''ALLREGIONS'') example_regions '','' = Inr None"
    using regions_selected [THEN conjunct1, of example_files "PStr ''ALLREGIONS''"] by simp
  have c: "get_regions example_files (PInt 3) example_regions '','' = Inr (Some [])"
  proof -
    have h: "\<forall>s. PInt 3 \<noteq> PStr s" by simp
    from regions_selected [THEN conjunct2, THEN conjunct1, THEN mp, OF h]
    show ?thesis .
  qed
  have d: "get_regions example_files (PStr ''regions.csv'') example_regions '','' =
             Inr (Some [''chile''])"
  proof -
    have h: "PStr ''regions.csv'' = PStr ''regions.csv'' \<and> ''regions.csv'' \<noteq> ''ALLREGIONS''
             \<and> path_exists example_files ''regions.csv''
             \<and> example_files ''regions.csv'' =
                 Some (Frame [(''region'', [PStr ''chile'', PStr ''nowhere''])])
             \<and> map_of [(''region'', [PStr ''chile'', PStr ''nowhere''])] (key example_regions)
                 = Some [PStr ''chile'', PStr ''nowhere'']
             \<and> convert_all py_str [PStr ''chile'', PStr ''nowhere''] = Inr [''chile'', ''nowhere'']"
      using q by (simp add: example_files_def example_regions_def)
    from regions_selected [THEN conjunct2, THEN conjunct2, THEN conjunct2, THEN conjunct2,
                           THEN conjunct2, rule_format, OF h]
    have "get_regions example_files (PStr ''regions.csv'') example_regions '','' =
            Inr (Some (List.map_filter (return_region_or_iso example_regions)
                         [''chile'', ''nowhere'']))" .
    then show ?thesis
      by (simp add: example_regions_def List.map_filter_def)
  qed
  have e: "get_regions example_files (PStr ''futures.csv'') example_regions '','' =
             Inl (RuntimeErrorKeyNotFound ''futures.csv'' ''region'')"
  proof -
    have h: "PStr ''futures.csv'' = PStr ''futures.csv'' \<and> ''futures.csv'' \<noteq> ''ALLREGIONS''
             \<and> path_exists example_files ''futures.csv''
             \<and> example_files ''futures.csv'' =
                 Some (Frame [(''future_id'', [PInt 0, PInt 5, PInt 12])])
             \<and> key example_regions \<notin> fst ` set [(''future_id'', [PInt 0, PInt 5, PInt 12])]"
      using q' by (simp add: example_files_def example_regions_def)
    from regions_selected [THEN conjunct2, THEN conjunct2, THEN conjunct2, THEN conjunct2,
                           THEN conjunct1, rule_format, OF h]
    have "get_regions example_files (PStr ''futures.csv'') example_regions '','' =
            Inl (RuntimeErrorKeyNotFound ''futures.csv'' (key example_regions))" .
    then show ?thesis
      by (simp add: example_regions_def)
  qed
  from p x a b c q d q' e show ?thesis by (intro conjI)
qed

section \<open>Properties of the run\<close>

lemma run_calls_subset: "set (snd (run_calls eng cs)) \<subseteq> set cs"
  by (induction cs) (auto split: option.splits prod.splits)

lemma no_dimensions_no_call:
  "get_dimensional_dict (files env) (Dict args) (attributes env) = Inr None \<Longrightarrow>
   snd (main env args) = []"
  by (simp add: main_def split: sum.splits)

text \<open>
  The sentinel for all regions never reaches the engine, whatever the other arguments
  and the environment are.
\<close>

lemma all_regions_no_call:
  assumes "args_get args ''regions'' = PStr ''ALLREGIONS''"
  shows "snd (main env args) = [] \<and> (\<exists>e. fst (main env args) = Inl e)"
  using assms
  by (auto simp: main_def get_regions_def split: sum.splits option.splits)

text \<open>
  Claim C1. The claim: at the guard before the engine the run fails when the regions
  resolved to an empty list and goes on when they resolved to \<^verbatim>\<open>None\<close>, the value
  that stands for all regions. Line 546 tests \<^verbatim>\<open>regions_run is None\<close> instead: with
  \<^verbatim>\<open>--regions ALLREGIONS\<close> the run is refused before any call to the engine, and
  with a region list that resolves to nothing all three calls are made.
\<close>

theorem all_regions_refused_at_guard:
  "main example_env (example_args(''regions'' \<mapsto> PStr ''ALLREGIONS'')) =
     (Inl RuntimeErrorInvalidSpecification, [])
   \<and> main example_env (example_args(''regions'' \<mapsto> PStr ''xx'')) =
     (Inr 0, [Instantiate (example_init (Some [])), Run example_request, Log])"
  by (simp add: evaluation)

text \<open>
  Claim C10. Whatever the arguments, a run request that reaches the engine has
  \<^verbatim>\<open>chunk_size = 2\<close>, \<^verbatim>\<open>check_results = True\<close> and
  \<^verbatim>\<open>reinitialize_output_table_on_verification_failure = True\<close>.
\<close>

theorem run_options_fixed:
  assumes "Run r \<in> set (snd (main env args))"
  shows "chunk_size r = 2 \<and> check_results r
         \<and> reinitialize_output_table_on_verification_failure r"
  using assms unfolding main_def Let_def
  by (auto split: sum.splits option.splits if_splits dest!: subsetD [OF run_calls_subset])

theorem run_options_fixed_witness:
  "Run example_request \<in> set (snd (main example_env example_args))
   \<and> chunk_size example_request = 2 \<and> check_results example_request
   \<and> reinitialize_output_table_on_verification_failure example_request"
proof -
  have h: "Run example_request \<in> set (snd (main example_env example_args))"
    by (simp add: evaluation)
  from run_options_fixed [OF h] h show ?thesis by simp
qed

end
